theory Spec2Isabelle
  imports Main "HOL-Library.Word"
begin

section \<open>Decimal numerals of the standard library (strconv)\<close>

text \<open>
  Go strings and byte slices are byte sequences: \<^typ>\<open>string\<close>. The two \<open>strconv\<close>
  errors are values; \<open>strconv.Itoa\<close>, \<open>strconv.ParseUint\<close> (base 10) and
  \<open>strconv.Atoi\<close> are written as the library computes them, the loops as recursion.
\<close>

datatype NumError = ErrSyntax | ErrRange

definition digitChar :: "nat \<Rightarrow> char" where
  "digitChar d = ''0123456789'' ! d"

definition isDigit :: "char \<Rightarrow> bool" where
  "isDigit c = (48 \<le> (of_char c :: nat) \<and> (of_char c :: nat) \<le> 57)"

definition digitVal :: "char \<Rightarrow> nat" where
  "digitVal c = of_char c - 48"

fun formatDecimal :: "nat \<Rightarrow> string" where
  "formatDecimal n =
     (if n < 10 then [digitChar n] else formatDecimal (n div 10) @ [digitChar (n mod 10)])"

declare formatDecimal.simps [simp del]

definition Itoa :: "int \<Rightarrow> string" where
  "Itoa i = (if i < 0 then CHR ''-'' # formatDecimal (nat (- i)) else formatDecimal (nat i))"

text \<open>
  The digit loop of \<open>ParseUint\<close> for base 10: \<open>n\<close> is the \<open>uint64\<close> accumulator,
  \<open>maxVal\<close> is \<open>2 ^ bitSize - 1\<close>. A byte that is no decimal digit is a syntax error;
  the two overflow tests (\<open>n >= cutoff\<close> and \<open>n1 < n || n1 > maxVal\<close>, the first
  disjunct being the 64-bit wrap-around of \<open>n + d\<close>) are range errors.
\<close>

fun parseDigits :: "nat \<Rightarrow> nat \<Rightarrow> string \<Rightarrow> NumError + nat" where
  "parseDigits maxVal n [] = Inr n"
| "parseDigits maxVal n (c # cs) =
     (if \<not> isDigit c then Inl ErrSyntax
      else if n \<ge> (2 ^ 64 - 1) div 10 + 1 then Inl ErrRange
      else let n1 = n * 10 + digitVal c
           in if n1 \<ge> 2 ^ 64 \<or> n1 > maxVal then Inl ErrRange
              else parseDigits maxVal n1 cs)"

definition ParseUint :: "string \<Rightarrow> nat \<Rightarrow> NumError + nat" where
  "ParseUint s bitSize =
     (if s = [] then Inl ErrSyntax else parseDigits (2 ^ bitSize - 1) 0 s)"

text \<open>
  \<open>Atoi\<close> is \<open>ParseInt(s, 10, 0)\<close> on a platform whose \<open>int\<close> has 64 bits: an optional
  sign, then \<open>ParseUint\<close> at 64 bits, then the signed range test.
\<close>

definition Atoi :: "string \<Rightarrow> NumError + int" where
  "Atoi s =
     (if s = [] then Inl ErrSyntax
      else
        let neg = (hd s = CHR ''-'');
            s1 = (if hd s = CHR ''+'' \<or> hd s = CHR ''-'' then tl s else s)
        in case ParseUint s1 64 of
             Inl e \<Rightarrow> Inl e
           | Inr un \<Rightarrow>
               if \<not> neg \<and> un \<ge> 2 ^ 63 then Inl ErrRange
               else if neg \<and> un > 2 ^ 63 then Inl ErrRange
               else Inr (if neg then - int un else int un))"

section \<open>Status codes\<close>

type_synonym Code = "32 word"

abbreviation CodeOK :: Code where "CodeOK \<equiv> 0"
abbreviation CodeCanceled :: Code where "CodeCanceled \<equiv> 1"
abbreviation CodeUnknown :: Code where "CodeUnknown \<equiv> 2"
abbreviation CodeInvalidArgument :: Code where "CodeInvalidArgument \<equiv> 3"
abbreviation CodeDeadlineExceeded :: Code where "CodeDeadlineExceeded \<equiv> 4"
abbreviation CodeNotFound :: Code where "CodeNotFound \<equiv> 5"
abbreviation CodeAlreadyExists :: Code where "CodeAlreadyExists \<equiv> 6"
abbreviation CodePermissionDenied :: Code where "CodePermissionDenied \<equiv> 7"
abbreviation CodeResourceExhausted :: Code where "CodeResourceExhausted \<equiv> 8"
abbreviation CodeFailedPrecondition :: Code where "CodeFailedPrecondition \<equiv> 9"
abbreviation CodeAborted :: Code where "CodeAborted \<equiv> 10"
abbreviation CodeOutOfRange :: Code where "CodeOutOfRange \<equiv> 11"
abbreviation CodeUnimplemented :: Code where "CodeUnimplemented \<equiv> 12"
abbreviation CodeInternal :: Code where "CodeInternal \<equiv> 13"
abbreviation CodeUnavailable :: Code where "CodeUnavailable \<equiv> 14"
abbreviation CodeDataLoss :: Code where "CodeDataLoss \<equiv> 15"
abbreviation CodeUnauthenticated :: Code where "CodeUnauthenticated \<equiv> 16"

abbreviation minCode :: Code where "minCode \<equiv> CodeOK"
abbreviation maxCode :: Code where "maxCode \<equiv> CodeUnauthenticated"

text \<open>The two lookup tables are map literals with distinct keys: association lists.\<close>

definition stringToCode :: "(string \<times> Code) list" where
  "stringToCode =
     [(''OK'', CodeOK),
      (''CANCELLED'', CodeCanceled),
      (''UNKNOWN'', CodeUnknown),
      (''INVALID_ARGUMENT'', CodeInvalidArgument),
      (''DEADLINE_EXCEEDED'', CodeDeadlineExceeded),
      (''NOT_FOUND'', CodeNotFound),
      (''ALREADY_EXISTS'', CodeAlreadyExists),
      (''PERMISSION_DENIED'', CodePermissionDenied),
      (''RESOURCE_EXHAUSTED'', CodeResourceExhausted),
      (''FAILED_PRECONDITION'', CodeFailedPrecondition),
      (''ABORTED'', CodeAborted),
      (''OUT_OF_RANGE'', CodeOutOfRange),
      (''UNIMPLEMENTED'', CodeUnimplemented),
      (''INTERNAL'', CodeInternal),
      (''UNAVAILABLE'', CodeUnavailable),
      (''DATA_LOSS'', CodeDataLoss),
      (''UNAUTHENTICATED'', CodeUnauthenticated)]"

definition httpToCode :: "(int \<times> Code) list" where
  "httpToCode =
     [(400, CodeInternal),
      (401, CodeUnauthenticated),
      (403, CodePermissionDenied),
      (404, CodeUnimplemented),
      (429, CodeUnavailable),
      (502, CodeUnavailable),
      (503, CodeUnavailable),
      (504, CodeUnavailable)]"

text \<open>
  \<open>Code.String\<close>: the switch, then \<open>fmt.Sprintf("Code(%d)", c)\<close>. The verb \<open>%d\<close>
  prints the unsigned value in decimal and does not call \<open>String\<close> again.
\<close>

definition String :: "Code \<Rightarrow> string" where
  "String c =
     (if c = CodeOK then ''OK''
      else if c = CodeCanceled then ''Canceled''
      else if c = CodeUnknown then ''Unknown''
      else if c = CodeInvalidArgument then ''InvalidArgument''
      else if c = CodeDeadlineExceeded then ''DeadlineExceeded''
      else if c = CodeNotFound then ''NotFound''
      else if c = CodeAlreadyExists then ''AlreadyExists''
      else if c = CodePermissionDenied then ''PermissionDenied''
      else if c = CodeResourceExhausted then ''ResourceExhausted''
      else if c = CodeFailedPrecondition then ''FailedPrecondition''
      else if c = CodeAborted then ''Aborted''
      else if c = CodeOutOfRange then ''OutOfRange''
      else if c = CodeUnimplemented then ''Unimplemented''
      else if c = CodeInternal then ''Internal''
      else if c = CodeUnavailable then ''Unavailable''
      else if c = CodeDataLoss then ''DataLoss''
      else if c = CodeUnauthenticated then ''Unauthenticated''
      else ''Code('' @ formatDecimal (unat c) @ '')'')"

text \<open>
  Error values. Errors that come from outside this package (the transport, the codec,
  the standard library) form a chain that \<open>errors.Is\<close> walks with \<open>Unwrap\<close>. An
  error built by \<open>fmt.Errorf\<close> keeps its format string and its arguments;
  \<open>errors.New\<close> keeps its text.
\<close>

datatype exterr =
    ContextCanceled
  | ContextDeadlineExceeded
  | Opaque string
  | Wraps string exterr

fun errors_Is :: "exterr \<Rightarrow> exterr \<Rightarrow> bool" where
  "errors_Is (Wraps m e) target = (Wraps m e = target \<or> errors_Is e target)"
| "errors_Is e target = (e = target)"

datatype arg =
    ArgString string
  | ArgInt int
  | ArgUint nat
  | ArgCode Code
  | ArgDuration int
  | ArgError exterr

datatype goerror =
    New string
  | Errorf string "arg list"
  | External exterr

text \<open>
  \<open>MarshalText\<close> returns the bytes or an error. \<open>UnmarshalText\<close> stores through its
  pointer receiver: \<open>Inr n\<close> is the value stored into \<open>*c\<close> with a nil error, \<open>Inl e\<close>
  is the error returned with \<open>*c\<close> left as it was.
\<close>

definition MarshalText :: "Code \<Rightarrow> goerror + string" where
  "MarshalText c =
     (if c < minCode \<or> c > maxCode then Inl (Errorf ''invalid code %v'' [ArgCode c])
      else Inr (Itoa (uint c)))"

definition UnmarshalText :: "string \<Rightarrow> goerror + Code" where
  "UnmarshalText b =
     (case map_of stringToCode b of
        Some n \<Rightarrow> Inr n
      | None \<Rightarrow>
          (case ParseUint b 32 of
             Inl err \<Rightarrow> Inl (Errorf ''invalid code %q'' [ArgString b])
           | Inr n \<Rightarrow>
               let code = (word_of_nat n :: Code)
               in if code < minCode \<or> code > maxCode
                  then Inl (Errorf ''invalid code %v'' [ArgUint n])
                  else Inr code))"

section \<open>The client: errors, headers and collaborators\<close>

text \<open>
  Modelled from the spec: the \<open>Error\<close> type and its two constructors \<open>errorf\<close> and
  \<open>wrap\<close> are not among the sources. The spec's Protocol Error carries a code, a
  message and a sequence of detail payloads; build-from-format takes a code and a
  formatted message, wrap takes a code and an existing error. The detail payloads are
  opaque: a type parameter.
\<close>

record 'd Error =
  code :: Code
  err :: goerror
  details :: "'d list"

definition errorf :: "Code \<Rightarrow> string \<Rightarrow> arg list \<Rightarrow> 'd Error" where
  "errorf c template args = \<lparr>code = c, err = Errorf template args, details = []\<rparr>"

definition wrap :: "Code \<Rightarrow> goerror \<Rightarrow> 'd Error" where
  "wrap c e = \<lparr>code = c, err = e, details = []\<rparr>"

text \<open>
  Modelled from the spec: the compression names and the advertised list are constants
  declared outside the sources; the spec gives \<open>identity\<close>, \<open>gzip\<close> and
  \<open>Grpc-Accept-Encoding: identity,gzip\<close>.
\<close>

definition CompressionIdentity :: string where
  "CompressionIdentity = ''identity''"

definition CompressionGzip :: string where
  "CompressionGzip = ''gzip''"

definition acceptEncodingValue :: string where
  "acceptEncodingValue = ''identity,gzip''"

text \<open>
  \<open>http.Header\<close> is a map from canonical keys to lists of values; \<open>Get\<close> returns the
  first value of a key, or the empty string when there is none.
\<close>

type_synonym Header = "string \<rightharpoonup> string list"

definition Get :: "Header \<Rightarrow> string \<Rightarrow> string" where
  "Get h key = (case h key of None \<Rightarrow> [] | Some [] \<Rightarrow> [] | Some (v # vs) \<Rightarrow> v)"

definition Set :: "Header \<Rightarrow> string \<Rightarrow> string \<Rightarrow> Header" where
  "Set h key v = h(key \<mapsto> [v])"

text \<open>
  The structured status payload: \<open>Code\<close> is a protobuf \<open>int32\<close>, kept as its 32 bits,
  so that the conversion \<open>Code(status.Code)\<close> to \<open>uint32\<close> leaves the bits as they are.
\<close>

record 'd Status =
  Code :: "32 word"
  Message :: string
  Details :: "'d list"

record Specification =
  Method :: string
  RequestCompression :: string

record callMeta =
  Spec :: Specification
  Request :: Header
  Response :: Header

text \<open>
  A context, as far as \<open>call\<close> reads it: the call metadata that \<open>CallMeta\<close> finds (if
  any) and the deadline (if any), an instant in nanoseconds.
\<close>

record Context =
  CallMeta :: "callMeta option"
  Deadline :: "int option"

record callCfg =
  EnableGzipRequest :: bool
  MaxResponseBytes :: int

record httpRequest =
  reqMethod :: string
  reqURL :: string
  reqHeader :: Header
  reqBody :: string

text \<open>
  A response: \<open>Trailer\<close> holds the trailers as they read once the body has been read
  to its end, which is when \<open>call\<close> reads them.
\<close>

record httpResponse =
  StatusCode :: int
  respHeader :: Header
  Body :: string
  Trailer :: Header

text \<open>
  The client, without its options (\<open>call\<close> reads none of them); the field
  \<open>procedure\<close> is the source's \<open>method\<close>.
\<close>

record Client =
  doer :: "httpRequest \<Rightarrow> exterr + httpResponse"
  url :: string
  procedure :: string

text \<open>
  The collaborators that \<open>call\<close> and \<open>extractError\<close> use and that are declared
  outside the sources are parameters: the clock, the timeout encoding, the
  length-prefixed codec, the URL check of \<open>http.NewRequestWithContext\<close>, percent
  decoding, the base64 decoding of binary headers and \<open>proto.Unmarshal\<close> of a status.
\<close>

record ('req, 'res, 'd) env =
  now :: int
  encodeTimeout :: "int \<Rightarrow> exterr + string"
  marshalLPM :: "'req \<Rightarrow> string \<Rightarrow> int \<Rightarrow> exterr + string"
  newRequest :: "string \<Rightarrow> exterr option"
  unmarshalLPM :: "string \<Rightarrow> string \<Rightarrow> int \<Rightarrow> exterr + 'res"
  percentDecode :: "string \<Rightarrow> string"
  decodeBinaryHeader :: "string \<Rightarrow> exterr + string"
  protoUnmarshal :: "string \<Rightarrow> exterr + 'd Status"

text \<open>
  \<open>time.Until(deadline)\<close>: the difference to the clock, saturated to the range of a
  \<open>Duration\<close> (64 bits, nanoseconds).
\<close>

definition Until :: "('req, 'res, 'd) env \<Rightarrow> int \<Rightarrow> int" where
  "Until env deadline = max (- (2 ^ 63)) (min (2 ^ 63 - 1) (deadline - now env))"

text \<open>
  \<open>Code(code)\<close> on a Go \<open>int\<close>: the low 32 bits.
\<close>

definition CodeOfInt :: "int \<Rightarrow> Code" where
  "CodeOfInt n = word_of_int n"

section \<open>extractError\<close>

text \<open>
  \<open>None\<close> is the nil error. The function reads \<open>Grpc-Status\<close> first and returns
  before any other read when the value is empty or \<open>0\<close>.
\<close>

definition extractError :: "('req, 'res, 'd) env \<Rightarrow> Header \<Rightarrow> 'd Error option" where
  "extractError env h =
     (let codeHeader = Get h ''Grpc-Status'';
          codeIsSuccess = (codeHeader = [] \<or> codeHeader = ''0'')
      in if codeIsSuccess then None
         else
           (case Atoi codeHeader of
              Inl e \<Rightarrow>
                Some (errorf CodeUnknown ''gRPC protocol error: got invalid error code %q''
                        [ArgString codeHeader])
            | Inr n \<Rightarrow>
                let message = percentDecode env (Get h ''Grpc-Message'');
                    ret = wrap (CodeOfInt n) (New message);
                    detailsBinaryEncoded = Get h ''Grpc-Status-Details-Bin''
                in if length detailsBinaryEncoded > 0 then
                     (case decodeBinaryHeader env detailsBinaryEncoded of
                        Inl e \<Rightarrow>
                          Some (errorf CodeUnknown
                                  ''server returned invalid grpc-error-details-bin trailer: %w''
                                  [ArgError e])
                      | Inr detailsBinary \<Rightarrow>
                          (case protoUnmarshal env detailsBinary of
                             Inl e \<Rightarrow>
                               Some (errorf CodeUnknown
                                       ''server returned invalid protobuf for error details: %w''
                                       [ArgError e])
                           | Inr status \<Rightarrow>
                               Some (ret\<lparr>details := Details status,
                                          code := Code status,
                                          err := New (Message status)\<rparr>)))
                   else Some ret))"

section \<open>The HTTP exchange\<close>

text \<open>
  What \<open>call\<close> does besides returning: the calls to the codec and to the transport,
  and the reads of the response body, in the order in which they happen. The two
  deferred statements run at every return after the transport has answered, the drain
  before the close.
\<close>

datatype effect =
    MarshalRequest
  | DoRequest httpRequest
  | UnmarshalBody
  | DrainBody
  | CloseBody

record ('res, 'd) outcome =
  result :: "'d Error option"
  meta :: "callMeta option"
  unmarshalled :: "'res option"
  effects :: "effect list"

text \<open>
  \<open>Client.call\<close>, in three definitions that follow the source's text in its order.
  \<open>deadlineStep\<close> is the block on the context's deadline: it returns the error of an
  expired deadline, or the call metadata, with \<open>Grpc-Timeout\<close> set when the timeout
  encodes. \<open>respond\<close> is the text from the status test to the end, which runs once
  the transport has answered: it gives the returned error (\<open>None\<close> is nil), the
  message stored into \<open>res\<close> (if any) and the effects of that text. \<open>call\<close> is the
  function: the outcome holds the returned error, the call metadata as the call
  leaves it, the message stored into \<open>res\<close> and all effects, the deferred ones last.
  The table that the source consults under the name \<open>httpToGRPC\<close> is the HTTP table
  of the status codes, \<open>httpToCode\<close>.
\<close>

definition deadlineStep ::
  "('req, 'res, 'd) env \<Rightarrow> Context \<Rightarrow> callMeta \<Rightarrow> 'd Error + callMeta"
where
  "deadlineStep env ctx md =
     (case Deadline ctx of
        None \<Rightarrow> Inr md
      | Some deadline \<Rightarrow>
          let untilDeadline = Until env deadline
          in if untilDeadline \<le> 0
             then Inl (errorf CodeDeadlineExceeded ''no time to make RPC: timeout is %v''
                         [ArgDuration untilDeadline])
             else (case encodeTimeout env untilDeadline of
                     Inr enc \<Rightarrow> Inr (md\<lparr>Request := Set (Request md) ''Grpc-Timeout'' enc\<rparr>)
                   | Inl e \<Rightarrow> Inr md))"

definition respond ::
  "('req, 'res, 'd) env \<Rightarrow> callCfg \<Rightarrow> httpResponse
     \<Rightarrow> 'd Error option \<times> 'res option \<times> effect list"
where
  "respond env cfg response =
     (if StatusCode response \<noteq> 200 then
        (Some (errorf (case map_of httpToCode (StatusCode response) of
                         Some c \<Rightarrow> c
                       | None \<Rightarrow> CodeUnknown)
                 ''HTTP status %v'' [ArgInt (StatusCode response)]),
         None, [])
      else
        let compression =
              (if Get (respHeader response) ''Grpc-Encoding'' = [] then CompressionIdentity
               else Get (respHeader response) ''Grpc-Encoding'')
        in if compression \<noteq> CompressionIdentity \<and> compression \<noteq> CompressionGzip then
             (Some (errorf CodeInternal
                      ''unknown compression %q: accepted grpc-encoding values are %v''
                      [ArgString compression, ArgString acceptEncodingValue]),
              None, [])
           else
             (case extractError env (respHeader response) of
                Some e \<Rightarrow> (Some e, None, [])
              | None \<Rightarrow>
                  let unmarshalErr =
                        unmarshalLPM env (Body response) compression (MaxResponseBytes cfg);
                      serverErr = extractError env (Trailer response)
                  in ((case serverErr of
                         Some e \<Rightarrow> Some e
                       | None \<Rightarrow>
                           (case unmarshalErr of
                              Inl e \<Rightarrow>
                                Some (errorf CodeUnknown
                                        ''server returned invalid protobuf: %w'' [ArgError e])
                            | Inr m \<Rightarrow> None)),
                      (case unmarshalErr of Inl e \<Rightarrow> None | Inr m \<Rightarrow> Some m),
                      [UnmarshalBody, DrainBody])))"

definition call ::
  "('req, 'res, 'd) env \<Rightarrow> Client \<Rightarrow> Context \<Rightarrow> 'req \<Rightarrow> callCfg \<Rightarrow> ('res, 'd) outcome"
where
  "call env c ctx req cfg =
     (case CallMeta ctx of
        None \<Rightarrow>
          \<lparr>result = Some (errorf CodeInternal ''no call metadata available on context'' []),
           meta = None, unmarshalled = None, effects = []\<rparr>
      | Some md0 \<Rightarrow>
          (case deadlineStep env ctx md0 of
             Inl e \<Rightarrow>
               \<lparr>result = Some e, meta = Some md0, unmarshalled = None, effects = []\<rparr>
           | Inr md \<Rightarrow>
               (case marshalLPM env req (RequestCompression (Spec md)) 0 of
                  Inl e \<Rightarrow>
                    \<lparr>result = Some (errorf CodeInvalidArgument
                                      ''can't marshal request as protobuf: %w'' [ArgError e]),
                     meta = Some md, unmarshalled = None, effects = [MarshalRequest]\<rparr>
                | Inr body \<Rightarrow>
                    (case newRequest env (url c) of
                       Some e \<Rightarrow>
                         \<lparr>result = Some (errorf CodeInternal
                                           ''can't create HTTP request: %w'' [ArgError e]),
                          meta = Some md, unmarshalled = None, effects = [MarshalRequest]\<rparr>
                     | None \<Rightarrow>
                         let request = \<lparr>reqMethod = ''POST'', reqURL = url c,
                                        reqHeader = Request md, reqBody = body\<rparr>
                         in (case doer c request of
                               Inl e \<Rightarrow>
                                 \<lparr>result =
                                    Some (if errors_Is e ContextCanceled
                                          then errorf CodeCanceled ''context canceled'' []
                                          else if errors_Is e ContextDeadlineExceeded
                                          then errorf CodeDeadlineExceeded
                                                 ''context deadline exceeded'' []
                                          else wrap CodeUnknown (External e)),
                                  meta = Some md, unmarshalled = None,
                                  effects = [MarshalRequest, DoRequest request]\<rparr>
                             | Inr response \<Rightarrow>
                                 let (r, msg, fx) = respond env cfg response
                                 in \<lparr>result = r,
                                     meta = Some (md\<lparr>Response := respHeader response\<rparr>),
                                     unmarshalled = msg,
                                     effects = [MarshalRequest, DoRequest request] @ fx
                                               @ [DrainBody, CloseBody]\<rparr>)))))"

section \<open>Decimal numerals as the specification words them\<close>

text \<open>
  The value of a string of decimal digits, and the specification's notion of a valid
  in-range decimal numeral: a non-empty string of decimal digits whose value is at
  most 16. Both follow the specification's words, not the parser.
\<close>

definition decimalValue :: "string \<Rightarrow> nat" where
  "decimalValue s = foldl (\<lambda>a c. a * 10 + digitVal c) 0 s"

definition inRangeNumeral :: "string \<Rightarrow> bool" where
  "inRangeNumeral s = (s \<noteq> [] \<and> list_all isDigit s \<and> decimalValue s \<le> 16)"

text \<open>
  A signed decimal numeral as \<open>Atoi\<close> is documented to accept it: an optional sign,
  then at least one decimal digit.
\<close>

definition signedNumeral :: "string \<Rightarrow> bool" where
  "signedNumeral s =
     (let ds = (if s \<noteq> [] \<and> (hd s = CHR ''+'' \<or> hd s = CHR ''-'') then tl s else s)
      in ds \<noteq> [] \<and> list_all isDigit ds)"

section \<open>Concrete collaborators\<close>

text \<open>
  A fixed set of collaborators, a client whose transport answers with a given
  response, a context and a configuration, for evaluating the definitions at
  concrete inputs.
\<close>

definition stubEnv :: "(unit, unit, string) env" where
  "stubEnv =
     \<lparr>now = 0,
      encodeTimeout = (\<lambda>d. Inr ''1S''),
      marshalLPM = (\<lambda>m c n. Inr ''frame''),
      newRequest = (\<lambda>u. None),
      unmarshalLPM = (\<lambda>b c n. if b = ''frame'' then Inr () else Inl (Opaque ''short read'')),
      percentDecode = (\<lambda>s. s),
      decodeBinaryHeader = (\<lambda>s. if s = ''!'' then Inl (Opaque ''illegal base64 data'') else Inr s),
      protoUnmarshal =
        (\<lambda>b. if b = ''??'' then Inl (Opaque ''cannot parse invalid wire-format data'')
             else Inr \<lparr>Code = 3, Message = ''from details'', Details = [''detail'']\<rparr>)\<rparr>"

definition stubClient :: "int \<Rightarrow> Header \<Rightarrow> string \<Rightarrow> Header \<Rightarrow> Client" where
  "stubClient status hdr body trl =
     \<lparr>doer = (\<lambda>rq. Inr \<lparr>StatusCode = status, respHeader = hdr, Body = body, Trailer = trl\<rparr>),
      url = ''https://api.acme.com/acme.foo.v1.Foo/Bar'',
      procedure = ''acme.foo.v1.Foo.Bar''\<rparr>"

definition stubContext :: "int option \<Rightarrow> Context" where
  "stubContext d =
     \<lparr>CallMeta = Some \<lparr>Spec = \<lparr>Method = ''acme.foo.v1.Foo.Bar'',
                                RequestCompression = ''identity''\<rparr>,
                        Request = [''Te'' \<mapsto> [''trailers'']],
                        Response = Map.empty\<rparr>,
      Deadline = d\<rparr>"

definition stubRequest :: httpRequest where
  "stubRequest =
     \<lparr>reqMethod = ''POST'', reqURL = ''https://api.acme.com/acme.foo.v1.Foo/Bar'',
      reqHeader = [''Te'' \<mapsto> [''trailers'']], reqBody = ''frame''\<rparr>"

definition stubCfg :: callCfg where
  "stubCfg = \<lparr>EnableGzipRequest = False, MaxResponseBytes = 0\<rparr>"

section \<open>Properties of the status codes\<close>

lemma digitChar_simps:
  "digitChar 0 = CHR ''0''" "digitChar 1 = CHR ''1''" "digitChar 2 = CHR ''2''"
  "digitChar 3 = CHR ''3''" "digitChar 4 = CHR ''4''" "digitChar 5 = CHR ''5''"
  "digitChar 6 = CHR ''6''" "digitChar 7 = CHR ''7''" "digitChar 8 = CHR ''8''"
  "digitChar 9 = CHR ''9''"
  by (simp_all add: digitChar_def)

lemma formatDecimal_numeral [simp]:
  "formatDecimal (numeral k) =
     (if (numeral k :: nat) < 10 then [digitChar (numeral k)]
      else formatDecimal (numeral k div 10) @ [digitChar (numeral k mod 10)])"
  by (rule formatDecimal.simps)

lemma formatDecimal_0 [simp]: "formatDecimal 0 = ''0''"
  by (simp add: formatDecimal.simps digitChar_simps)

lemma formatDecimal_1 [simp]: "formatDecimal (Suc 0) = ''1''"
  using formatDecimal.simps [of 1] by (simp add: digitChar_def)

lemma digit_roundtrip: "d < 10 \<Longrightarrow> isDigit (digitChar d) \<and> digitVal (digitChar d) = d"
proof -
  assume "d < 10"
  then have "d \<in> {0, 1, 2, 3, 4, 5, 6, 7, 8, 9}" by auto
  then show ?thesis
    by (auto simp: digitChar_def isDigit_def digitVal_def)
qed


lemma parseDigits_Inr:
  "parseDigits maxVal n s = Inr r \<Longrightarrow>
     list_all isDigit s \<and> r = foldl (\<lambda>a c. a * 10 + digitVal c) n s \<and> (s \<noteq> [] \<longrightarrow> r \<le> maxVal)"
proof (induction s arbitrary: n)
  case Nil
  then show ?case by simp
next
  case (Cons c cs)
  from Cons.prems have d: "isDigit c"
    by (simp split: if_splits)
  from Cons.prems d have b: "n * 10 + digitVal c \<le> maxVal"
    and rec: "parseDigits maxVal (n * 10 + digitVal c) cs = Inr r"
    by (simp_all add: Let_def split: if_splits)
  note ih0 = Cons.IH [OF rec]
  have ih: "list_all isDigit cs"
    "r = foldl (\<lambda>a c. a * 10 + digitVal c) (n * 10 + digitVal c) cs"
    "cs \<noteq> [] \<longrightarrow> r \<le> maxVal"
    using ih0 by blast+
  show ?case
  proof (cases cs)
    case Nil
    with rec b d show ?thesis by simp
  next
    case (Cons a list)
    with ih d show ?thesis by simp
  qed
qed

lemma foldl_formatDecimal:
  "foldl (\<lambda>a c. a * 10 + digitVal c) 0 (formatDecimal m) = m"
proof (induction m rule: formatDecimal.induct)
  case (1 n)
  show ?case
  proof (cases "n < 10")
    case True
    then show ?thesis
      by (subst formatDecimal.simps) (simp add: digit_roundtrip)
  next
    case False
    then have ih: "foldl (\<lambda>a c. a * 10 + digitVal c) 0 (formatDecimal (n div 10)) = n div 10"
      using 1 by simp
    have "n mod 10 < 10" by simp
    then have "digitVal (digitChar (n mod 10)) = n mod 10"
      using digit_roundtrip by blast
    with False ih show ?thesis
      by (subst formatDecimal.simps) simp
  qed
qed

lemma formatDecimal_digits: "formatDecimal m \<noteq> [] \<and> list_all isDigit (formatDecimal m)"
proof (induction m rule: formatDecimal.induct)
  case (1 n)
  show ?case
  proof (cases "n < 10")
    case True
    then show ?thesis
      by (subst (1 2) formatDecimal.simps) (simp add: digit_roundtrip)
  next
    case False
    have "n mod 10 < 10" by simp
    then have "isDigit (digitChar (n mod 10))"
      using digit_roundtrip by blast
    with False 1 show ?thesis
      by (subst (1 2) formatDecimal.simps) simp
  qed
qed

lemma formatDecimal_no_leading_zero: "0 < m \<Longrightarrow> hd (formatDecimal m) \<noteq> CHR ''0''"
proof (induction m rule: formatDecimal.induct)
  case (1 n)
  show ?case
  proof (cases "n < 10")
    case True
    with 1(2) have "n \<in> {1, 2, 3, 4, 5, 6, 7, 8, 9}" by auto
    then have "digitChar n \<noteq> CHR ''0''"
      by (auto simp: digitChar_def)
    with True show ?thesis
      by (subst formatDecimal.simps) simp
  next
    case False
    then have "0 < n div 10" by simp
    with False 1 have "hd (formatDecimal (n div 10)) \<noteq> CHR ''0''" by simp
    moreover have "formatDecimal (n div 10) \<noteq> []"
      using formatDecimal_digits by blast
    ultimately show ?thesis
      using False by (subst formatDecimal.simps) simp
  qed
qed

text \<open>
  C8. \<open>Code.String\<close> returns a string for every code value (it has no error result):
  the seventeen canonical codes render as their fixed Pascal-case names, in the order
  of their numbers, and every value above 16 renders as \<open>Code(n)\<close>, where \<open>n\<close> is the
  decimal numeral of the value: a non-empty string of decimal digits without a leading
  zero whose value is the number of the code.
\<close>

theorem String_display_name:
  "map String [0, 1, 2, 3, 4, 5, 6, 7, 8, 9, 10, 11, 12, 13, 14, 15, 16] =
     [''OK'', ''Canceled'', ''Unknown'', ''InvalidArgument'', ''DeadlineExceeded'',
      ''NotFound'', ''AlreadyExists'', ''PermissionDenied'', ''ResourceExhausted'',
      ''FailedPrecondition'', ''Aborted'', ''OutOfRange'', ''Unimplemented'', ''Internal'',
      ''Unavailable'', ''DataLoss'', ''Unauthenticated'']
   \<and> (\<forall>c. maxCode < c \<longrightarrow>
         (\<exists>ds. String c = ''Code('' @ ds @ '')''
               \<and> ds \<noteq> [] \<and> list_all isDigit ds \<and> hd ds \<noteq> CHR ''0''
               \<and> decimalValue ds = unat c))"
proof (intro conjI allI impI)
  show "map String [0, 1, 2, 3, 4, 5, 6, 7, 8, 9, 10, 11, 12, 13, 14, 15, 16] =
     [''OK'', ''Canceled'', ''Unknown'', ''InvalidArgument'', ''DeadlineExceeded'',
      ''NotFound'', ''AlreadyExists'', ''PermissionDenied'', ''ResourceExhausted'',
      ''FailedPrecondition'', ''Aborted'', ''OutOfRange'', ''Unimplemented'', ''Internal'',
      ''Unavailable'', ''DataLoss'', ''Unauthenticated'']"
    by (simp add: String_def)
next
  fix c :: Code
  assume a: "maxCode < c"
  then have "c \<notin> {0, 1, 2, 3, 4, 5, 6, 7, 8, 9, 10, 11, 12, 13, 14, 15, 16}"
    by auto
  then have s: "String c = ''Code('' @ formatDecimal (unat c) @ '')''"
    by (simp add: String_def)
  from a have "0 < unat c"
    by (simp add: word_less_nat_alt)
  then have z: "hd (formatDecimal (unat c)) \<noteq> CHR ''0''"
    by (rule formatDecimal_no_leading_zero)
  have d: "formatDecimal (unat c) \<noteq> []" "list_all isDigit (formatDecimal (unat c))"
    using formatDecimal_digits by blast+
  have v: "decimalValue (formatDecimal (unat c)) = unat c"
    by (simp add: decimalValue_def foldl_formatDecimal)
  from s z d v
  show "\<exists>ds. String c = ''Code('' @ ds @ '')''
               \<and> ds \<noteq> [] \<and> list_all isDigit ds \<and> hd ds \<noteq> CHR ''0''
               \<and> decimalValue ds = unat c"
    by blast
qed

theorem String_display_name_witness:
  "maxCode < (99 :: Code) \<and> String 99 = ''Code(99)'' \<and> decimalValue ''99'' = unat (99 :: Code)
   \<and> String 4294967295 = ''Code(4294967295)''
   \<and> String 9 = ''FailedPrecondition''"
proof -
  have a: "maxCode < (99 :: Code)" by simp
  from String_display_name a obtain ds where
    "String (99 :: Code) = ''Code('' @ ds @ '')''" "decimalValue ds = unat (99 :: Code)"
    by blast
  have s: "String (99 :: Code) = ''Code(99)''" "String 4294967295 = ''Code(4294967295)''"
    by (simp_all add: String_def digitChar_def)
  have v: "decimalValue ''99'' = unat (99 :: Code)"
    by (simp add: decimalValue_def digitVal_def)
  have n: "String 9 = ''FailedPrecondition''"
    using String_display_name by simp
  from a s v n show ?thesis by simp
qed

lemma stringToCode_keys:
  "map_of stringToCode s = Some c \<Longrightarrow> s \<noteq> [] \<and> \<not> isDigit (hd s) \<and> hd s \<noteq> CHR ''-''"
  by (auto simp: stringToCode_def isDigit_def split: if_splits)




lemma ParseUint_Inr:
  assumes "ParseUint s bitSize = Inr r"
  shows "s \<noteq> [] \<and> list_all isDigit s \<and> r = decimalValue s \<and> r \<le> 2 ^ bitSize - 1"
proof -
  from assms have ne: "s \<noteq> []" and p: "parseDigits (2 ^ bitSize - 1) 0 s = Inr r"
    by (auto simp: ParseUint_def split: if_splits)
  from parseDigits_Inr [OF p] ne show ?thesis
    by (simp add: decimalValue_def)
qed

lemma UnmarshalText_Inr_numeral:
  assumes "map_of stringToCode s = None" and "UnmarshalText s = Inr c"
  shows "inRangeNumeral s \<and> c = word_of_nat (decimalValue s)"
proof -
  from assms obtain r where p: "ParseUint s 32 = Inr r"
    and ok: "\<not> (word_of_nat r :: Code) > 16" and c: "c = word_of_nat r"
    by (auto simp: UnmarshalText_def Let_def split: sum.splits if_splits)
  from ParseUint_Inr [OF p] have f: "s \<noteq> []" "list_all isDigit s" "r = decimalValue s"
    and b: "r \<le> 2 ^ 32 - 1" by blast+
  from b have "unat (word_of_nat r :: Code) = r"
    by (simp add: unat_of_nat)
  with ok have "r \<le> 16"
    by (simp add: word_less_nat_alt not_less)
  with f c show ?thesis by (simp add: inRangeNumeral_def)
qed

lemma stringToCode_Itoa: "map_of stringToCode (Itoa i) = None"
proof (cases "map_of stringToCode (Itoa i)")
  case None
  then show ?thesis .
next
  case (Some c)
  from stringToCode_keys [OF Some] have k: "\<not> isDigit (hd (Itoa i))" "hd (Itoa i) \<noteq> CHR ''-''"
    by blast+
  have "formatDecimal (nat i) \<noteq> []" "list_all isDigit (formatDecimal (nat i))"
    using formatDecimal_digits by blast+
  then have "isDigit (hd (formatDecimal (nat i)))"
    by (cases "formatDecimal (nat i)") simp_all
  with k show ?thesis by (simp add: Itoa_def split: if_splits)
qed


text \<open>
  C7. Serialization fails with the invalid-code error for every code value above 16
  (the values of the unsigned type outside the range). Parsing fails for the decimal
  string of every integer below 0 or above 16, and for every string that is neither a
  key of the table of spec strings nor an in-range decimal numeral.
\<close>

theorem Code_text_rejects:
  "(\<forall>c. maxCode < c \<longrightarrow> MarshalText c = Inl (Errorf ''invalid code %v'' [ArgCode c]))
   \<and> (\<forall>i. i < 0 \<or> 16 < i \<longrightarrow> isl (UnmarshalText (Itoa i)))
   \<and> (\<forall>s. map_of stringToCode s = None \<and> \<not> inRangeNumeral s \<longrightarrow> isl (UnmarshalText s))"
proof (intro conjI allI impI)
  fix c :: Code
  assume "maxCode < c"
  then show "MarshalText c = Inl (Errorf ''invalid code %v'' [ArgCode c])"
    by (simp add: MarshalText_def)
next
  fix s
  assume a: "map_of stringToCode s = None \<and> \<not> inRangeNumeral s"
  show "isl (UnmarshalText s)"
  proof (cases "UnmarshalText s")
    case (Inl e)
    then show ?thesis by simp
  next
    case (Inr c)
    with a UnmarshalText_Inr_numeral show ?thesis by blast
  qed
next
  fix i :: int
  assume out: "i < 0 \<or> 16 < i"
  show "isl (UnmarshalText (Itoa i))"
  proof (cases "UnmarshalText (Itoa i)")
    case (Inl e)
    then show ?thesis by simp
  next
    case (Inr c)
    from UnmarshalText_Inr_numeral [OF stringToCode_Itoa Inr]
    have n: "inRangeNumeral (Itoa i)" by blast
    show ?thesis
    proof (cases "i < 0")
      case True
      then have "\<not> list_all isDigit (Itoa i)"
        by (simp add: Itoa_def isDigit_def)
      with n show ?thesis by (simp add: inRangeNumeral_def)
    next
      case False
      then have "decimalValue (Itoa i) = nat i"
        by (simp add: Itoa_def decimalValue_def foldl_formatDecimal)
      with n out False show ?thesis by (auto simp: inRangeNumeral_def)
    qed
  qed
qed

theorem Code_text_rejects_witness:
  "maxCode < (17 :: Code) \<and> MarshalText 17 = Inl (Errorf ''invalid code %v'' [ArgCode 17])
   \<and> isl (UnmarshalText (Itoa 17)) \<and> isl (UnmarshalText (Itoa (- 1)))
   \<and> map_of stringToCode ''Canceled'' = None \<and> \<not> inRangeNumeral ''Canceled''
   \<and> isl (UnmarshalText ''Canceled'')"
proof -
  have a: "maxCode < (17 :: Code)" by simp
  have b: "(16 :: int) < 17" "(- 1 :: int) < 0" by simp_all
  have c: "map_of stringToCode ''Canceled'' = None"
    by (simp add: stringToCode_def)
  have d: "\<not> inRangeNumeral ''Canceled''"
    by (simp add: inRangeNumeral_def isDigit_def)
  from Code_text_rejects a b c d show ?thesis by blast
qed



section \<open>Properties of extractError and of the HTTP exchange\<close>

lemma Atoi_Inr_signedNumeral: "Atoi s = Inr n \<Longrightarrow> signedNumeral s"
proof -
  assume a: "Atoi s = Inr n"
  then have ne: "s \<noteq> []" by (auto simp: Atoi_def split: if_splits)
  define ds where "ds = (if hd s = CHR ''+'' \<or> hd s = CHR ''-'' then tl s else s)"
  from a ne obtain un where "ParseUint ds 64 = Inr un"
    by (auto simp: Atoi_def Let_def ds_def split: sum.splits if_splits)
  from ParseUint_Inr [OF this] have "ds \<noteq> []" "list_all isDigit ds" by blast+
  with ne show ?thesis by (simp add: signedNumeral_def ds_def)
qed

lemma Atoi_zero_string: "Atoi ''0'' = Inr 0"
  by (simp add: Atoi_def ParseUint_def isDigit_def digitVal_def)

text \<open>
  C2, as the code has it. For every header set: when the \<open>Grpc-Status\<close> value is
  absent (empty) or the string \<open>0\<close>, the result is nil. Otherwise the value is parsed
  as a signed decimal integer by \<open>Atoi\<close>: every value that is not a signed decimal
  numeral, and every value that \<open>Atoi\<close> rejects, yields the error with code Unknown
  whose message reports the invalid error code.
\<close>

theorem extractError_status:
  "(Get h ''Grpc-Status'' = [] \<or> Get h ''Grpc-Status'' = ''0'' \<longrightarrow> extractError env h = None)
   \<and> (Get h ''Grpc-Status'' \<noteq> [] \<and> Get h ''Grpc-Status'' \<noteq> ''0''
        \<and> (\<not> signedNumeral (Get h ''Grpc-Status'') \<or> isl (Atoi (Get h ''Grpc-Status'')))
      \<longrightarrow> extractError env h =
            Some (errorf CodeUnknown ''gRPC protocol error: got invalid error code %q''
                    [ArgString (Get h ''Grpc-Status'')]))"
proof (intro conjI impI)
  assume "Get h ''Grpc-Status'' = [] \<or> Get h ''Grpc-Status'' = ''0''"
  then show "extractError env h = None"
    by (auto simp: extractError_def)
next
  assume a: "Get h ''Grpc-Status'' \<noteq> [] \<and> Get h ''Grpc-Status'' \<noteq> ''0''
        \<and> (\<not> signedNumeral (Get h ''Grpc-Status'') \<or> isl (Atoi (Get h ''Grpc-Status'')))"
  then have "isl (Atoi (Get h ''Grpc-Status''))"
    using Atoi_Inr_signedNumeral by (cases "Atoi (Get h ''Grpc-Status'')") auto
  then obtain e where "Atoi (Get h ''Grpc-Status'') = Inl e"
    by (cases "Atoi (Get h ''Grpc-Status'')") auto
  with a show "extractError env h =
            Some (errorf CodeUnknown ''gRPC protocol error: got invalid error code %q''
                    [ArgString (Get h ''Grpc-Status'')])"
    by (simp add: extractError_def)
qed

theorem extractError_status_witness:
  "extractError stubEnv Map.empty = None
   \<and> extractError stubEnv [''Grpc-Status'' \<mapsto> [''0'']] = None
   \<and> extractError stubEnv [''Grpc-Status'' \<mapsto> [''abc'']] =
       Some (errorf CodeUnknown ''gRPC protocol error: got invalid error code %q''
               [ArgString ''abc''])"
proof -
  have g: "Get Map.empty ''Grpc-Status'' = []"
    "Get [''Grpc-Status'' \<mapsto> [''0'']] ''Grpc-Status'' = ''0''"
    "Get [''Grpc-Status'' \<mapsto> [''abc'']] ''Grpc-Status'' = ''abc''"
    by (simp_all add: Get_def)
  have n: "\<not> signedNumeral ''abc''"
    by (simp add: signedNumeral_def isDigit_def)
  show ?thesis
    using extractError_status [of Map.empty stubEnv]
      extractError_status [of "[''Grpc-Status'' \<mapsto> [''0'']]" stubEnv]
      extractError_status [of "[''Grpc-Status'' \<mapsto> [''abc'']]" stubEnv] g n
    by simp
qed

text \<open>
  C2 as stated has the value parsed as an unsigned integer. The value \<open>-1\<close> is no
  unsigned numeral (\<open>ParseUint\<close> rejects it at every size), yet \<open>extractError\<close>
  accepts it and returns an error whose code is \<open>4294967295\<close>, not Unknown.
\<close>

theorem extractError_signed_counterexample:
  "Get [''Grpc-Status'' \<mapsto> [''-1'']] ''Grpc-Status'' = ''-1''
   \<and> ParseUint ''-1'' 32 = Inl ErrSyntax
   \<and> ParseUint ''-1'' 64 = Inl ErrSyntax
   \<and> extractError stubEnv [''Grpc-Status'' \<mapsto> [''-1'']] =
       Some \<lparr>code = 4294967295, err = New [], details = []\<rparr>"
  by (simp add: Get_def ParseUint_def isDigit_def digitVal_def extractError_def Atoi_def
      stubEnv_def wrap_def CodeOfInt_def)

text \<open>
  C3. When the status is not a success, \<open>Atoi\<close> has parsed it (the error is being
  built) and a \<open>Grpc-Status-Details-Bin\<close> value is present (not empty): a failure of
  the base64 decoding or of the protobuf parsing gives an error with code Unknown;
  otherwise the returned error has the payload's code, message and details in place
  of what the plain headers gave.
\<close>

theorem extractError_details:
  assumes "Get h ''Grpc-Status'' \<noteq> []" and "Get h ''Grpc-Status'' \<noteq> ''0''"
    and "Atoi (Get h ''Grpc-Status'') = Inr n"
    and "Get h ''Grpc-Status-Details-Bin'' \<noteq> []"
  shows "(case decodeBinaryHeader env (Get h ''Grpc-Status-Details-Bin'') of
            Inl e \<Rightarrow> map_option code (extractError env h) = Some CodeUnknown
          | Inr detailsBinary \<Rightarrow>
              (case protoUnmarshal env detailsBinary of
                 Inl e \<Rightarrow> map_option code (extractError env h) = Some CodeUnknown
               | Inr status \<Rightarrow>
                   extractError env h =
                     Some \<lparr>code = Code status, err = New (Message status),
                           details = Details status\<rparr>))"
  using assms
  by (simp add: extractError_def errorf_def wrap_def split: sum.splits)

theorem extractError_details_witness:
  "map_option code (extractError stubEnv
       [''Grpc-Status'' \<mapsto> [''5''], ''Grpc-Status-Details-Bin'' \<mapsto> [''!'']]) = Some CodeUnknown
   \<and> map_option code (extractError stubEnv
       [''Grpc-Status'' \<mapsto> [''5''], ''Grpc-Status-Details-Bin'' \<mapsto> [''??'']]) = Some CodeUnknown
   \<and> extractError stubEnv
       [''Grpc-Status'' \<mapsto> [''5''], ''Grpc-Message'' \<mapsto> [''plain''],
        ''Grpc-Status-Details-Bin'' \<mapsto> [''CAM='']] =
       Some \<lparr>code = CodeInvalidArgument, err = New ''from details'', details = [''detail'']\<rparr>"
proof -
  have a: "Atoi ''5'' = Inr 5"
    by (simp add: Atoi_def ParseUint_def isDigit_def digitVal_def)
  show ?thesis
    using
      extractError_details [of "[''Grpc-Status'' \<mapsto> [''5''], ''Grpc-Status-Details-Bin'' \<mapsto> [''!'']]" 5 stubEnv]
      extractError_details [of "[''Grpc-Status'' \<mapsto> [''5''], ''Grpc-Status-Details-Bin'' \<mapsto> [''??'']]" 5 stubEnv]
      extractError_details [of "[''Grpc-Status'' \<mapsto> [''5''], ''Grpc-Message'' \<mapsto> [''plain''],
        ''Grpc-Status-Details-Bin'' \<mapsto> [''CAM='']]" 5 stubEnv] a
    by (simp add: Get_def stubEnv_def)
qed

text \<open>
  C9, as the code has it. When \<open>Grpc-Status\<close> parses as an integer \<open>n\<close> other than
  0 and there is no \<open>Grpc-Status-Details-Bin\<close> value, the returned error's code is
  the conversion of \<open>n\<close> to the 32-bit unsigned code, with no range test: it may lie
  above 16, also for a negative \<open>n\<close>.
\<close>

theorem extractError_raw_code:
  assumes "Atoi (Get h ''Grpc-Status'') = Inr n" and "n \<noteq> 0"
    and "Get h ''Grpc-Status-Details-Bin'' = []"
  shows "extractError env h =
           Some \<lparr>code = word_of_int n, err = New (percentDecode env (Get h ''Grpc-Message'')),
                 details = []\<rparr>"
proof -
  from assms(1) have "Get h ''Grpc-Status'' \<noteq> []"
    by (auto simp: Atoi_def)
  moreover from assms(1,2) have "Get h ''Grpc-Status'' \<noteq> ''0''"
    using Atoi_zero_string by auto
  ultimately show ?thesis
    using assms by (simp add: extractError_def wrap_def CodeOfInt_def)
qed

theorem extractError_raw_code_witness:
  "extractError stubEnv [''Grpc-Status'' \<mapsto> [''99''], ''Grpc-Message'' \<mapsto> [''odd'']] =
     Some \<lparr>code = 99, err = New ''odd'', details = []\<rparr>
   \<and> extractError stubEnv [''Grpc-Status'' \<mapsto> [''-1'']] =
     Some \<lparr>code = 4294967295, err = New [], details = []\<rparr>
   \<and> maxCode < (99 :: Code)"
proof -
  have a: "Atoi ''99'' = Inr 99" "Atoi ''-1'' = Inr (- 1)"
    by (simp_all add: Atoi_def ParseUint_def isDigit_def digitVal_def)
  show ?thesis
    using
      extractError_raw_code [of "[''Grpc-Status'' \<mapsto> [''99''], ''Grpc-Message'' \<mapsto> [''odd'']]" 99 stubEnv]
      extractError_raw_code [of "[''Grpc-Status'' \<mapsto> [''-1'']]" "- 1" stubEnv] a
    by (simp add: Get_def stubEnv_def)
qed

text \<open>
  C9 as stated covers every header whose status parses. With a valid
  \<open>Grpc-Status-Details-Bin\<close> value beside the status \<open>5\<close>, the returned code is the
  payload's code 3, not the conversion of 5.
\<close>

theorem extractError_raw_code_counterexample:
  "Atoi (Get [''Grpc-Status'' \<mapsto> [''5''], ''Grpc-Status-Details-Bin'' \<mapsto> [''CAM='']]
           ''Grpc-Status'') = Inr 5
   \<and> map_option code (extractError stubEnv
        [''Grpc-Status'' \<mapsto> [''5''], ''Grpc-Status-Details-Bin'' \<mapsto> [''CAM='']]) = Some 3
   \<and> (3 :: Code) \<noteq> word_of_int 5"
  by (simp add: Get_def ParseUint_def isDigit_def digitVal_def extractError_def Atoi_def
      stubEnv_def wrap_def CodeOfInt_def)

text \<open>
  C10. When \<open>Grpc-Status\<close> is absent (empty) or \<open>0\<close>, \<open>extractError\<close> returns nil
  whatever the header set holds under \<open>Grpc-Status-Details-Bin\<close> and whatever the
  decoders would make of it: the result is nil for the header set as it is, with any
  values stored under that key, and with the key removed.
\<close>

theorem extractError_success_skips_details:
  assumes "Get h ''Grpc-Status'' = [] \<or> Get h ''Grpc-Status'' = ''0''"
  shows "extractError env h = None
         \<and> extractError env (h(''Grpc-Status-Details-Bin'' \<mapsto> vs)) = None
         \<and> extractError env (h(''Grpc-Status-Details-Bin'' := None)) = None"
  using assms by (auto simp: extractError_def Get_def)

theorem extractError_success_skips_details_witness:
  "extractError stubEnv [''Grpc-Status'' \<mapsto> [''0''], ''Grpc-Status-Details-Bin'' \<mapsto> [''CAM='']] = None
   \<and> extractError stubEnv [''Grpc-Status-Details-Bin'' \<mapsto> [''CAM='']] = None
   \<and> extractError stubEnv [''Grpc-Status'' \<mapsto> [''3''], ''Grpc-Status-Details-Bin'' \<mapsto> [''CAM='']]
       = Some \<lparr>code = CodeInvalidArgument, err = New ''from details'', details = [''detail'']\<rparr>"
proof -
  have g: "Get [''Grpc-Status'' \<mapsto> [''0'']] ''Grpc-Status'' = ''0''"
    "Get Map.empty ''Grpc-Status'' = []"
    by (simp_all add: Get_def)
  have e: "extractError stubEnv [''Grpc-Status'' \<mapsto> [''3''], ''Grpc-Status-Details-Bin'' \<mapsto> [''CAM='']]
       = Some \<lparr>code = CodeInvalidArgument, err = New ''from details'', details = [''detail'']\<rparr>"
    by (simp add: Get_def ParseUint_def isDigit_def digitVal_def extractError_def Atoi_def
      stubEnv_def wrap_def CodeOfInt_def)
  show ?thesis
    using extractError_success_skips_details [of "[''Grpc-Status'' \<mapsto> [''0'']]" stubEnv "[''CAM='']"]
      extractError_success_skips_details [of Map.empty stubEnv "[''CAM='']"] g e
    by simp
qed

lemma Until_nonpositive: "deadline \<le> now env \<Longrightarrow> Until env deadline \<le> 0"
  by (simp add: Until_def)

text \<open>
  C5, as the code has it. When the context carries the call metadata and a deadline
  that the clock has reached (the remaining duration is zero or negative), \<open>call\<close>
  returns the DeadlineExceeded error with the "no time to make RPC" message. With or
  without the metadata, such a call returns an error and has no effect: nothing is
  marshalled and the transport is not invoked.
\<close>

theorem call_deadline_expired:
  assumes "Deadline ctx = Some deadline" and "deadline \<le> now env"
  shows "effects (call env c ctx req cfg) = []
         \<and> result (call env c ctx req cfg) \<noteq> None
         \<and> (\<forall>md. CallMeta ctx = Some md \<longrightarrow>
               result (call env c ctx req cfg) =
                 Some (errorf CodeDeadlineExceeded ''no time to make RPC: timeout is %v''
                         [ArgDuration (Until env deadline)]))"
  using assms Until_nonpositive [OF assms(2)]
  by (simp add: call_def deadlineStep_def Let_def split: option.splits)

theorem call_deadline_expired_witness:
  "result (call stubEnv (stubClient 200 Map.empty ''frame'' Map.empty) (stubContext (Some (- 5)))
             () stubCfg) =
     Some (errorf CodeDeadlineExceeded ''no time to make RPC: timeout is %v'' [ArgDuration (- 5)])
   \<and> effects (call stubEnv (stubClient 200 Map.empty ''frame'' Map.empty) (stubContext (Some (- 5)))
             () stubCfg) = []"
proof -
  have u: "Until stubEnv (- 5) = - 5"
    by (simp add: Until_def stubEnv_def)
  have n: "(- 5 :: int) \<le> now stubEnv"
    by (simp add: stubEnv_def)
  have d: "Deadline (stubContext (Some (- 5))) = Some (- 5)"
    by (simp add: stubContext_def)
  show ?thesis
    using call_deadline_expired [OF d n, of "stubClient 200 Map.empty ''frame'' Map.empty" "()" stubCfg] u
    by (simp add: stubContext_def)
qed

text \<open>
  C5 as stated covers every context with an expired deadline. The test for the call
  metadata comes first: on a context without metadata whose deadline has passed, the
  error is Internal, not DeadlineExceeded.
\<close>

theorem call_deadline_expired_counterexample:
  "Deadline \<lparr>CallMeta = None, Deadline = Some (- 5)\<rparr> = Some (- 5)
   \<and> Until stubEnv (- 5) \<le> 0
   \<and> result (call stubEnv (stubClient 200 Map.empty ''frame'' Map.empty)
                \<lparr>CallMeta = None, Deadline = Some (- 5)\<rparr> () stubCfg) =
       Some (errorf CodeInternal ''no call metadata available on context'' [])
   \<and> CodeInternal \<noteq> CodeDeadlineExceeded"
  by (simp add: call_def Until_def stubEnv_def)

lemma extractError_not_http:
  "extractError env h = Some e \<Longrightarrow> err e \<noteq> Errorf ''HTTP status %v'' args"
  by (auto simp: extractError_def Let_def errorf_def wrap_def split: if_splits sum.splits)

lemma respond_effects: "DoRequest rq \<notin> set (snd (snd (respond env cfg response)))"
  by (simp add: respond_def Let_def split: option.splits)

lemma call_answered:
  assumes "DoRequest rq \<in> set (effects (call env c ctx req cfg))"
    and "doer c rq = Inr response"
  shows "result (call env c ctx req cfg) = fst (respond env cfg response)"
proof (cases "CallMeta ctx")
  case None
  with assms(1) show ?thesis by (simp add: call_def)
next
  case (Some md0)
  note m = Some
  show ?thesis
  proof (cases "deadlineStep env ctx md0")
    case (Inl e)
    with m assms(1) show ?thesis by (simp add: call_def)
  next
    case (Inr md)
    note d = Inr
    show ?thesis
    proof (cases "marshalLPM env req (RequestCompression (Spec md)) 0")
      case (Inl e)
      with m d assms(1) show ?thesis by (simp add: call_def)
    next
      case (Inr body)
      note b = Inr
      show ?thesis
      proof (cases "newRequest env (url c)")
        case (Some e)
        with m d b assms(1) show ?thesis by (simp add: call_def)
      next
        case None
        note n = None
        define request where
          "request = \<lparr>reqMethod = ''POST'', reqURL = url c, reqHeader = Request md, reqBody = body\<rparr>"
        show ?thesis
        proof (cases "doer c request")
          case (Inl e)
          with m d b n assms show ?thesis
            by (auto simp: call_def request_def)
        next
          case (Inr response')
          obtain r msg fx where p: "respond env cfg response' = (r, msg, fx)"
            by (cases "respond env cfg response'") auto
          from respond_effects [of rq env cfg response'] p have "DoRequest rq \<notin> set fx"
            by simp
          with m d b n Inr p assms(1) have "rq = request"
            by (simp add: call_def request_def)
          with Inr assms(2) have "response' = response" by simp
          with m d b n Inr p show ?thesis
            by (simp add: call_def request_def)
        qed
      qed
    qed
  qed
qed

text \<open>
  C4. When \<open>call\<close> has submitted a request and the transport has answered it: for
  every status other than 200 the returned error has the code of the table (400
  Internal, 401 Unauthenticated, 403 PermissionDenied, 404 Unimplemented, 429, 502,
  503 and 504 Unavailable, anything else Unknown) and the HTTP status message; for
  status 200 no returned error is the HTTP status error.
\<close>

theorem call_http_status:
  assumes "DoRequest rq \<in> set (effects (call env c ctx req cfg))"
    and "doer c rq = Inr response"
  shows "(StatusCode response \<noteq> 200 \<longrightarrow>
            result (call env c ctx req cfg) =
              Some (errorf
                      (let s = StatusCode response
                       in if s = 400 then CodeInternal
                          else if s = 401 then CodeUnauthenticated
                          else if s = 403 then CodePermissionDenied
                          else if s = 404 then CodeUnimplemented
                          else if s = 429 \<or> s = 502 \<or> s = 503 \<or> s = 504 then CodeUnavailable
                          else CodeUnknown)
                      ''HTTP status %v'' [ArgInt (StatusCode response)]))
         \<and> (StatusCode response = 200 \<longrightarrow>
              (\<forall>e args. result (call env c ctx req cfg) = Some e
                 \<longrightarrow> err e \<noteq> Errorf ''HTTP status %v'' args))"
proof -
  have r: "result (call env c ctx req cfg) = fst (respond env cfg response)"
    using assms by (rule call_answered)
  have "StatusCode response \<noteq> 200 \<longrightarrow>
          fst (respond env cfg response) =
              Some (errorf
                      (let s = StatusCode response
                       in if s = 400 then CodeInternal
                          else if s = 401 then CodeUnauthenticated
                          else if s = 403 then CodePermissionDenied
                          else if s = 404 then CodeUnimplemented
                          else if s = 429 \<or> s = 502 \<or> s = 503 \<or> s = 504 then CodeUnavailable
                          else CodeUnknown)
                      ''HTTP status %v'' [ArgInt (StatusCode response)])"
    by (simp add: respond_def httpToCode_def Let_def)
  moreover have "StatusCode response = 200 \<longrightarrow>
              (\<forall>e args. fst (respond env cfg response) = Some e
                 \<longrightarrow> err e \<noteq> Errorf ''HTTP status %v'' args)"
    by (auto simp: respond_def Let_def errorf_def extractError_not_http
        split: option.splits sum.splits if_splits)
  ultimately show ?thesis
    by (simp only: r) 
qed

text \<open>
  C1, as the code has it. When \<open>call\<close> has submitted a request, the transport has
  answered with status 200 and with an accepted encoding (\<open>Grpc-Encoding\<close> absent,
  identity or gzip), and the response headers hold no error: the returned error is
  the error of the trailers when there is one, also when the body failed to
  unmarshal; otherwise Unknown wrapping the unmarshal failure when the body failed to
  unmarshal; otherwise nil.
\<close>

theorem call_resolution:
  assumes "DoRequest rq \<in> set (effects (call env c ctx req cfg))"
    and "doer c rq = Inr response"
    and "StatusCode response = 200"
    and "Get (respHeader response) ''Grpc-Encoding'' \<in> {[], CompressionIdentity, CompressionGzip}"
    and "extractError env (respHeader response) = None"
  shows "result (call env c ctx req cfg) =
           (case extractError env (Trailer response) of
              Some serverErr \<Rightarrow> Some serverErr
            | None \<Rightarrow>
                (case unmarshalLPM env (Body response)
                        (if Get (respHeader response) ''Grpc-Encoding'' = []
                         then CompressionIdentity
                         else Get (respHeader response) ''Grpc-Encoding'')
                        (MaxResponseBytes cfg) of
                   Inl unmarshalErr \<Rightarrow>
                     Some (errorf CodeUnknown ''server returned invalid protobuf: %w''
                             [ArgError unmarshalErr])
                 | Inr m \<Rightarrow> None))"
proof -
  have r: "result (call env c ctx req cfg) = fst (respond env cfg response)"
    using assms(1,2) by (rule call_answered)
  show ?thesis
    using assms(3,4,5)
    by (auto simp: r respond_def Let_def split: option.splits sum.splits)
qed


lemma stub_call_sends:
  "DoRequest stubRequest
     \<in> set (effects (call stubEnv (stubClient status hdr body trl) (stubContext None) () stubCfg))"
  by (simp add: call_def deadlineStep_def stubEnv_def stubClient_def stubContext_def
      stubRequest_def Let_def split: prod.splits)

lemma stub_doer:
  "doer (stubClient status hdr body trl) rq =
     Inr \<lparr>StatusCode = status, respHeader = hdr, Body = body, Trailer = trl\<rparr>"
  by (simp add: stubClient_def)

theorem call_http_status_witness:
  "result (call stubEnv (stubClient 503 Map.empty [] Map.empty) (stubContext None) () stubCfg) =
     Some (errorf CodeUnavailable ''HTTP status %v'' [ArgInt 503])
   \<and> result (call stubEnv (stubClient 418 Map.empty [] Map.empty) (stubContext None) () stubCfg) =
     Some (errorf CodeUnknown ''HTTP status %v'' [ArgInt 418])
   \<and> map_option err
        (result (call stubEnv (stubClient 200 [''Grpc-Status'' \<mapsto> [''7'']] [] Map.empty)
                   (stubContext None) () stubCfg))
       \<noteq> Some (Errorf ''HTTP status %v'' [ArgInt 200])"
proof -
  have a: "result (call stubEnv (stubClient 503 Map.empty [] Map.empty) (stubContext None) ()
                     stubCfg) =
             Some (errorf CodeUnavailable ''HTTP status %v'' [ArgInt 503])"
    using call_http_status [OF stub_call_sends stub_doer, of 503 Map.empty "[]" Map.empty]
    by simp
  have b: "result (call stubEnv (stubClient 418 Map.empty [] Map.empty) (stubContext None) ()
                     stubCfg) =
             Some (errorf CodeUnknown ''HTTP status %v'' [ArgInt 418])"
    using call_http_status [OF stub_call_sends stub_doer, of 418 Map.empty "[]" Map.empty]
    by simp
  have c: "map_option err
        (result (call stubEnv (stubClient 200 [''Grpc-Status'' \<mapsto> [''7'']] [] Map.empty)
                   (stubContext None) () stubCfg))
       \<noteq> Some (Errorf ''HTTP status %v'' [ArgInt 200])"
    using call_http_status [OF stub_call_sends stub_doer,
        of 200 "[''Grpc-Status'' \<mapsto> [''7'']]" "[]" Map.empty]
    by auto
  from a b c show ?thesis by blast
qed

theorem call_resolution_witness:
  "map_option code
     (result (call stubEnv
                (stubClient 200 Map.empty ''torn'' [''Grpc-Status'' \<mapsto> [''10'']])
                (stubContext None) () stubCfg)) = Some CodeAborted
   \<and> result (call stubEnv (stubClient 200 Map.empty ''torn'' Map.empty) (stubContext None) ()
               stubCfg) =
       Some (errorf CodeUnknown ''server returned invalid protobuf: %w''
               [ArgError (Opaque ''short read'')])
   \<and> result (call stubEnv (stubClient 200 Map.empty ''frame'' Map.empty) (stubContext None) ()
               stubCfg) = None"
proof -
  have h: "Get Map.empty ''Grpc-Encoding'' \<in> {[], CompressionIdentity, CompressionGzip}"
    by (simp add: Get_def)
  have e: "extractError stubEnv Map.empty = None"
    by (simp add: extractError_def Get_def)
  have t: "extractError stubEnv [''Grpc-Status'' \<mapsto> [''10'']] =
             Some \<lparr>code = CodeAborted, err = New [], details = []\<rparr>"
    by (simp add: Get_def ParseUint_def isDigit_def digitVal_def extractError_def Atoi_def
        stubEnv_def wrap_def CodeOfInt_def)
  have u: "unmarshalLPM stubEnv ''torn'' CompressionIdentity 0 = Inl (Opaque ''short read'')"
    "unmarshalLPM stubEnv ''frame'' CompressionIdentity 0 = Inr ()"
    by (simp_all add: stubEnv_def)
  have c: "MaxResponseBytes stubCfg = 0"
    by (simp add: stubCfg_def)
  have a1: "map_option code
     (result (call stubEnv
                (stubClient 200 Map.empty ''torn'' [''Grpc-Status'' \<mapsto> [''10'']])
                (stubContext None) () stubCfg)) = Some CodeAborted"
    using call_resolution [OF stub_call_sends stub_doer,
        of 200 Map.empty "''torn''" "[''Grpc-Status'' \<mapsto> [''10'']]"] h e t
    by simp
  have a2: "result (call stubEnv (stubClient 200 Map.empty ''torn'' Map.empty) (stubContext None) ()
               stubCfg) =
       Some (errorf CodeUnknown ''server returned invalid protobuf: %w''
               [ArgError (Opaque ''short read'')])"
    using call_resolution [OF stub_call_sends stub_doer, of 200 Map.empty "''torn''" Map.empty]
      h e u c
    by (simp add: Get_def)
  have a3: "result (call stubEnv (stubClient 200 Map.empty ''frame'' Map.empty) (stubContext None) ()
               stubCfg) = None"
    using call_resolution [OF stub_call_sends stub_doer, of 200 Map.empty "''frame''" Map.empty]
      h e u c
    by (simp add: Get_def)
  from a1 a2 a3 show ?thesis by blast
qed

text \<open>
  C1 as stated covers every response with status 200 and no error in its headers. The
  test of the encoding comes before the headers are read for an error: with the
  encoding \<open>brotli\<close>, a body that does not unmarshal and the trailer status 10, the
  returned error is Internal for the unknown compression, not the Aborted error of
  the trailers.
\<close>

theorem call_resolution_counterexample:
  "StatusCode \<lparr>StatusCode = 200, respHeader = [''Grpc-Encoding'' \<mapsto> [''brotli'']],
                Body = ''torn'', Trailer = [''Grpc-Status'' \<mapsto> [''10'']]\<rparr> = 200
   \<and> extractError stubEnv [''Grpc-Encoding'' \<mapsto> [''brotli'']] = None
   \<and> map_option code (extractError stubEnv [''Grpc-Status'' \<mapsto> [''10'']]) = Some CodeAborted
   \<and> result (call stubEnv
                (stubClient 200 [''Grpc-Encoding'' \<mapsto> [''brotli'']] ''torn''
                   [''Grpc-Status'' \<mapsto> [''10'']])
                (stubContext None) () stubCfg) =
       Some (errorf CodeInternal
               ''unknown compression %q: accepted grpc-encoding values are %v''
               [ArgString ''brotli'', ArgString ''identity,gzip''])"
  by (simp add: call_def deadlineStep_def respond_def stubEnv_def stubClient_def stubContext_def
      stubCfg_def Let_def Get_def extractError_def Atoi_def ParseUint_def isDigit_def
      digitVal_def wrap_def CodeOfInt_def CompressionIdentity_def CompressionGzip_def
      acceptEncodingValue_def)

end
